theory Spec2Isabelle
  imports Complex_Main "HOL-Library.List_Lexorder" "HOL-Library.Char_ord"
begin

section \<open>Data model\<close>

text \<open>
  The wire types of \<^verbatim>\<open>lib/api\<close> as the components use them. A JavaScript number is
  modelled as a \<^typ>\<open>real\<close> (counters as \<^typ>\<open>int\<close>): the arithmetic of the components is
  read exactly, without the rounding of IEEE doubles. A numeric field may be
  \<^verbatim>\<open>undefined\<close> on the wire (the components guard every read with \<^verbatim>\<open>|| 0\<close>), which is
  \<^term>\<open>None\<close> here. Timestamps are ISO-8601 texts, compared lexicographically.
\<close>

record performance_metric =
  interface :: string
  timestamp :: string
  latency :: "real option"
  throughput :: "real option"
  packets_sent :: "int option"
  packets_recv :: "int option"
  bytes_recv :: "int option"

record network_interface =
  name :: string
  ipv4 :: "string option"
  ipv6 :: "string option"

text \<open>\<^verbatim>\<open>AllMetrics\<close>: one snapshot. Field \<open>am_interfaces\<close> is \<^verbatim>\<open>interfaces\<close> and
  \<open>am_timestamp\<close> is \<^verbatim>\<open>timestamp\<close> of the source.\<close>

record all_metrics =
  performance_metrics :: "performance_metric list"
  am_interfaces :: "network_interface list"
  am_timestamp :: string

text \<open>\<^verbatim>\<open>ChartDataPoint\<close>: the axis label \<^verbatim>\<open>time\<close> and the numeric keys
  \<^verbatim>\<open>latency_<iface>\<close>, \<^verbatim>\<open>throughput_<iface>\<close> in insertion order.\<close>

record chart_data_point =
  time :: string
  entries :: "(string \<times> real) list"

text \<open>The object held in \<^verbatim>\<open>latestMetrics\<close>: \<^verbatim>\<open>{latency, throughput, packetLoss, bandwidth}\<close>.\<close>

record latest_metric =
  lm_latency :: real
  lm_throughput :: real
  lm_packetLoss :: real
  lm_bandwidth :: real

definition zero_latest :: latest_metric where
  "zero_latest = \<lparr>lm_latency = 0, lm_throughput = 0, lm_packetLoss = 0, lm_bandwidth = 0\<rparr>"

subsection \<open>JavaScript helpers\<close>

text \<open>\<^verbatim>\<open>x || 0\<close> on a number that may be \<^verbatim>\<open>undefined\<close>.\<close>

definition or0 :: "real option \<Rightarrow> real" where
  "or0 x = (case x of None \<Rightarrow> 0 | Some v \<Rightarrow> v)"

definition or0i :: "int option \<Rightarrow> real" where
  "or0i x = (case x of None \<Rightarrow> 0 | Some v \<Rightarrow> real_of_int v)"

text \<open>
  \<^verbatim>\<open>String.prototype.toLowerCase\<close> maps a text through the case tables of the JavaScript
  runtime, which are not part of the sources: the table view below takes the mapping as
  an argument, named \<open>toLowerCase\<close>, and is modelled over any such mapping.
  \<open>ascii_toLowerCase\<close> is the mapping on texts of ASCII characters; it stands for the
  argument in the examples, whose texts are all ASCII.
\<close>

definition ascii_lower_char :: "char \<Rightarrow> char" where
  "ascii_lower_char c =
     (let n = (of_char c :: nat) in if 65 \<le> n \<and> n \<le> 90 then char_of (n + 32) else c)"

definition ascii_toLowerCase :: "string \<Rightarrow> string" where
  "ascii_toLowerCase s = map ascii_lower_char s"

text \<open>\<^verbatim>\<open>s.includes(t)\<close>: \<open>t\<close> occurs in \<open>s\<close> as a contiguous run.\<close>

fun js_includes :: "string \<Rightarrow> string \<Rightarrow> bool" where
  "js_includes [] t = (t = [])"
| "js_includes (c # s) t = (take (length t) (c # s) = t \<or> js_includes s t)"

text \<open>The template literal \<^verbatim>\<open>`${index}`\<close>: the decimal digits of an array index.\<close>

function string_of_index :: "nat \<Rightarrow> string" where
  "string_of_index n =
     (if n < 10 then [char_of (48 + n)]
      else string_of_index (n div 10) @ [char_of (48 + n mod 10)])"
  by pat_completeness auto
termination
  by (relation "measure id") auto

section \<open>The table view (\<^verbatim>\<open>TableMode\<close>)\<close>

datatype status = Active | Inactive | Warning

text \<open>\<^verbatim>\<open>NetworkMetric\<close>, the row type of the table; every field carries the prefix \<open>nm_\<close>.\<close>

record network_metric =
  nm_id :: string
  nm_interface :: string
  nm_status :: status
  nm_latency :: real
  nm_throughput :: real
  nm_packetLoss :: real
  nm_bandwidth :: real
  nm_timestamp :: string
  nm_ipv4 :: "string option"
  nm_ipv6 :: "string option"

text \<open>The body of the \<^verbatim>\<open>metrics.map((metric, index) => ...)\<close> callback.\<close>

definition transform_row ::
  "network_interface list \<Rightarrow> performance_metric \<Rightarrow> nat \<Rightarrow> network_metric" where
  "transform_row ifaces metric index =
     (let interfaceInfo = find (\<lambda>iface. name iface = interface metric) ifaces;
          sent = or0i (packets_sent metric);
          recv = or0i (packets_recv metric);
          packetLoss = (if sent > 0 then ((sent - recv) / sent) * 100 else 0);
          bandwidth = or0i (bytes_recv metric) / (1024 * 1024)
      in \<lparr>nm_id = string_of_index index,
          nm_interface = interface metric,
          nm_status = Active,
          nm_latency = or0 (latency metric),
          nm_throughput = or0 (throughput metric),
          nm_packetLoss = max 0 packetLoss,
          nm_bandwidth = bandwidth,
          nm_timestamp = timestamp metric,
          nm_ipv4 = (case interfaceInfo of None \<Rightarrow> None | Some i \<Rightarrow> ipv4 i),
          nm_ipv6 = (case interfaceInfo of None \<Rightarrow> None | Some i \<Rightarrow> ipv6 i)\<rparr>)"

definition transformedData ::
  "performance_metric list \<Rightarrow> network_interface list \<Rightarrow> network_metric list" where
  "transformedData ms ifaces =
     map (\<lambda>(metric, index). transform_row ifaces metric index) (zip ms [0..<length ms])"

text \<open>
  The callback of \<^verbatim>\<open>transformedData.filter\<close>. In \<^verbatim>\<open>row.ipv4 && row.ipv4.includes(search)\<close>
  and \<^verbatim>\<open>row.ipv6 && row.ipv6.toLowerCase().includes(search.toLowerCase())\<close> an absent or
  empty address is falsy; the test is on the address as it stands, before any lower-casing.
\<close>

definition search_matches :: "(string \<Rightarrow> string) \<Rightarrow> string \<Rightarrow> network_metric \<Rightarrow> bool" where
  "search_matches toLowerCase search row =
     (js_includes (toLowerCase (nm_interface row)) (toLowerCase search) \<or>
      (case nm_ipv4 row of None \<Rightarrow> False
       | Some a \<Rightarrow> a \<noteq> [] \<and> js_includes a search) \<or>
      (case nm_ipv6 row of None \<Rightarrow> False
       | Some a \<Rightarrow> a \<noteq> [] \<and> js_includes (toLowerCase a) (toLowerCase search)))"

definition row_matches ::
  "(string \<Rightarrow> string) \<Rightarrow> string list \<Rightarrow> string \<Rightarrow> network_metric \<Rightarrow> bool" where
  "row_matches toLowerCase selected search row =
     ((nm_interface row \<in> set selected \<or> length selected = 0) \<and>
      search_matches toLowerCase search row)"

definition filteredData ::
  "(string \<Rightarrow> string) \<Rightarrow> network_metric list \<Rightarrow> string list \<Rightarrow> string \<Rightarrow>
   network_metric list" where
  "filteredData toLowerCase rows selected search =
     filter (row_matches toLowerCase selected search) rows"

section \<open>Selection\<close>

text \<open>
  The effect \<^verbatim>\<open>useEffect(() => { if (availableInterfaces.length > 0 &&
  selectedInterfaces.length === 0) setSelectedInterfaces(availableInterfaces) }, ...)\<close>,
  which the provider, the dashboard and the table each register: the selection it leaves,
  from the available names and the selection it finds.
\<close>

definition reconcile :: "string list \<Rightarrow> string list \<Rightarrow> string list" where
  "reconcile available selected =
     (if length available > 0 \<and> length selected = 0 then available else selected)"

text \<open>The handlers of \<^verbatim>\<open>MultiSelect\<close>: each returns the list it passes to \<^verbatim>\<open>onChange\<close>.\<close>

definition handleSelect :: "string list \<Rightarrow> string \<Rightarrow> string list" where
  "handleSelect selected v =
     (if v \<in> set selected then filter (\<lambda>item. item \<noteq> v) selected else selected @ [v])"

definition handleRemove :: "string list \<Rightarrow> string \<Rightarrow> string list" where
  "handleRemove selected v = filter (\<lambda>item. item \<noteq> v) selected"

definition handleSelectAll :: "string list \<Rightarrow> string list" where
  "handleSelectAll options = options"

definition handleSelectAllLabel :: "string list \<Rightarrow> string list \<Rightarrow> string list" where
  "handleSelectAllLabel options selected = (if length selected = 0 then options else [])"

definition handleClear :: "string list" where
  "handleClear = []"

section \<open>The functions of \<^verbatim>\<open>lib/api\<close>\<close>

text \<open>
  The provider calls \<^verbatim>\<open>convertHistoricalToChartData\<close> and \<^verbatim>\<open>getLatestMetrics\<close> of
  \<^verbatim>\<open>lib/api\<close>. The provider is modelled over any pair of such functions (a value of
  type \<open>api\<close>); \<^verbatim>\<open>getLatestMetrics\<close> returns the object
  \<^verbatim>\<open>{latestMetric, avgLatency, avgThroughput}\<close>, here a triple.
\<close>

record api =
  convertHistoricalToChartData :: "all_metrics list \<Rightarrow> chart_data_point list"
  getLatestMetrics ::
    "performance_metric list \<Rightarrow> string list \<Rightarrow> latest_metric \<times> real \<times> real"

text \<open>
  Modelled from the spec: the body of \<^verbatim>\<open>convertHistoricalToChartData\<close> (in
  \<^verbatim>\<open>lib/api\<close>). One chart point per snapshot, in snapshot order, labelled with the
  snapshot's timestamp (the axis formatting of the label is not specified, the timestamp
  text is kept), with the fields \<^verbatim>\<open>latency_<iface>\<close> and \<^verbatim>\<open>throughput_<iface>\<close> for
  every sample of that snapshot.
\<close>

definition chart_point_of :: "all_metrics \<Rightarrow> chart_data_point" where
  "chart_point_of s =
     \<lparr>time = am_timestamp s,
      entries = concat (map (\<lambda>m. [(''latency_'' @ interface m, or0 (latency m)),
                                  (''throughput_'' @ interface m, or0 (throughput m))])
                         (performance_metrics s))\<rparr>"

definition convertHistoricalToChartData_spec :: "all_metrics list \<Rightarrow> chart_data_point list" where
  "convertHistoricalToChartData_spec history = map chart_point_of history"

text \<open>
  Modelled from the spec: the body of \<^verbatim>\<open>getLatestMetrics\<close> (in \<^verbatim>\<open>lib/api\<close>). The
  samples are filtered to the selected interfaces; an empty filtered list gives zeros;
  the averages are arithmetic means over the filtered samples; each latest value is read
  from the most recent sample of each interface (a later sample wins a tie) and averaged
  over those interfaces. Packet loss and bandwidth of a sample follow the formulas the
  table view shares with \<^verbatim>\<open>lib/api\<close>.
\<close>

definition mean :: "real list \<Rightarrow> real" where
  "mean xs = (if xs = [] then 0 else sum_list xs / real (length xs))"

definition packet_loss_pct :: "performance_metric \<Rightarrow> real" where
  "packet_loss_pct m =
     (let sent = or0i (packets_sent m); recv = or0i (packets_recv m)
      in max 0 (if sent > 0 then ((sent - recv) / sent) * 100 else 0))"

definition bandwidth_mb :: "performance_metric \<Rightarrow> real" where
  "bandwidth_mb m = or0i (bytes_recv m) / (1024 * 1024)"

fun most_recent :: "performance_metric \<Rightarrow> performance_metric list \<Rightarrow> performance_metric" where
  "most_recent best [] = best"
| "most_recent best (m # ms) =
     most_recent (if timestamp best \<le> timestamp m then m else best) ms"

definition latest_samples :: "performance_metric list \<Rightarrow> performance_metric list" where
  "latest_samples filtered =
     concat (map (\<lambda>i. case filter (\<lambda>m. interface m = i) filtered of
                         [] \<Rightarrow> []
                       | m # ms \<Rightarrow> [most_recent m ms])
                 (remdups (map interface filtered)))"

definition getLatestMetrics_spec ::
  "performance_metric list \<Rightarrow> string list \<Rightarrow> latest_metric \<times> real \<times> real" where
  "getLatestMetrics_spec samples selected =
     (let filtered = filter (\<lambda>m. interface m \<in> set selected) samples
      in if filtered = [] then (zero_latest, 0, 0)
         else (let latest = latest_samples filtered
               in (\<lparr>lm_latency = mean (map (\<lambda>m. or0 (latency m)) latest),
                    lm_throughput = mean (map (\<lambda>m. or0 (throughput m)) latest),
                    lm_packetLoss = mean (map packet_loss_pct latest),
                    lm_bandwidth = mean (map bandwidth_mb latest)\<rparr>,
                   mean (map (\<lambda>m. or0 (latency m)) filtered),
                   mean (map (\<lambda>m. or0 (throughput m)) filtered))))"

definition spec_api :: api where
  "spec_api = \<lparr>convertHistoricalToChartData = convertHistoricalToChartData_spec,
               getLatestMetrics = getLatestMetrics_spec\<rparr>"

section \<open>The metrics provider (\<^verbatim>\<open>MetricsProvider\<close>)\<close>

text \<open>The \<^verbatim>\<open>useState\<close> cells of the provider.\<close>

record provider_state =
  metrics :: "performance_metric list"
  interfaces :: "network_interface list"
  chartData :: "chart_data_point list"
  latestMetrics :: latest_metric
  avgLatency :: real
  avgThroughput :: real
  availableInterfaces :: "string list"
  selectedInterfaces :: "string list"
  loading :: bool
  error :: "string option"

definition initial_state :: provider_state where
  "initial_state =
     \<lparr>metrics = [], interfaces = [], chartData = [], latestMetrics = zero_latest,
      avgLatency = 0, avgThroughput = 0, availableInterfaces = [], selectedInterfaces = [],
      loading = True, error = None\<rparr>"

definition setSelectedInterfaces :: "string list \<Rightarrow> provider_state \<Rightarrow> provider_state" where
  "setSelectedInterfaces sel st = st\<lparr>selectedInterfaces := sel\<rparr>"

text \<open>The provider's reconciling effect, as a step on the state.\<close>

definition reconcile_effect :: "provider_state \<Rightarrow> provider_state" where
  "reconcile_effect st =
     (if length (availableInterfaces st) > 0 \<and> length (selectedInterfaces st) = 0
      then setSelectedInterfaces (availableInterfaces st) st else st)"

subsection \<open>The pull: \<^verbatim>\<open>fetchData\<close>\<close>

text \<open>
  \<^verbatim>\<open>fetchData\<close> from the outcome of \<^verbatim>\<open>await fetchAllMetrics()\<close> (\<open>Inl\<close> a rejection,
  \<open>Inr\<close> the snapshot) to the state once its \<^verbatim>\<open>finally\<close> block has run. The argument
  \<open>sel\<close> is the value of \<^verbatim>\<open>selectedInterfaces\<close> in the closure of the render that created
  this \<^verbatim>\<open>fetchData\<close>.
\<close>

definition fetchData ::
  "api \<Rightarrow> string list \<Rightarrow> string + all_metrics \<Rightarrow> provider_state \<Rightarrow> provider_state" where
  "fetchData a sel outcome st =
     (case outcome of
        Inr allMetrics \<Rightarrow>
          (case getLatestMetrics a (performance_metrics allMetrics) sel of
             (latestMetric, avgL, avgT) \<Rightarrow>
               st\<lparr>error := None,
                  metrics := performance_metrics allMetrics,
                  interfaces := am_interfaces allMetrics,
                  chartData := convertHistoricalToChartData a [allMetrics],
                  latestMetrics := latestMetric,
                  avgLatency := avgL,
                  avgThroughput := avgT,
                  availableInterfaces := map name (am_interfaces allMetrics),
                  loading := False\<rparr>)
      | Inl err \<Rightarrow>
          st\<lparr>error := Some ''Failed to fetch network metrics'',
             metrics := [],
             interfaces := [],
             chartData := [],
             latestMetrics := zero_latest,
             avgLatency := 0,
             avgThroughput := 0,
             availableInterfaces := [],
             loading := False\<rparr>)"

text \<open>\<^verbatim>\<open>refreshData\<close> is rebuilt on every render, so its \<^verbatim>\<open>fetchData\<close> sees the selection of
  the state it is called in.\<close>

definition refreshData ::
  "api \<Rightarrow> string + all_metrics \<Rightarrow> provider_state \<Rightarrow> provider_state" where
  "refreshData a outcome st = fetchData a (selectedInterfaces st) outcome st"

subsection \<open>The push: \<^verbatim>\<open>handleWebSocketUpdate\<close>\<close>

text \<open>
  The argument \<^verbatim>\<open>data: any\<close> of the handler, as far as the handler inspects it.
  \<open>Nullish\<close> is a falsy \<^verbatim>\<open>data\<close>. In a \<open>Payload\<close>, a field that is absent or falsy is
  \<^term>\<open>None\<close> (\<open>Absent\<close> for \<^verbatim>\<open>performance_metrics\<close>), a truthy
  \<^verbatim>\<open>performance_metrics\<close> that fails \<^verbatim>\<open>Array.isArray\<close> is \<open>NotArray\<close>, and a field that is
  present has its TypeScript type. The fields \<open>legacy_performance_metrics\<close> and
  \<open>legacy_interfaces\<close> are \<^verbatim>\<open>data.performance_metrics\<close> and \<^verbatim>\<open>data.interfaces\<close>.
\<close>

datatype 'a array_field = Absent | NotArray | IsArray "'a list"

record ws_payload =
  current_data :: "all_metrics option"
  historical_data :: "all_metrics list option"
  legacy_performance_metrics :: "performance_metric array_field"
  legacy_interfaces :: "network_interface list option"

datatype ws_data = Nullish | Payload ws_payload

text \<open>A line of the console: \<^verbatim>\<open>console.warn(message, data)\<close>.\<close>

datatype console_entry = Warn string ws_data

text \<open>
  \<open>now\<close> is \<^verbatim>\<open>new Date().toISOString()\<close> at the call, and \<open>sel\<close> the value of
  \<^verbatim>\<open>selectedInterfaces\<close> in the handler's closure. The result is the state after the
  batched setter calls, with the console lines written. Both accepting branches of the
  handler make the same setter calls, written once as \<open>apply_snapshot\<close>: on the samples,
  the interfaces and the list handed to \<^verbatim>\<open>convertHistoricalToChartData\<close>.
\<close>

definition apply_snapshot ::
  "api \<Rightarrow> string list \<Rightarrow> performance_metric list \<Rightarrow> network_interface list \<Rightarrow>
   all_metrics list \<Rightarrow> provider_state \<Rightarrow> provider_state" where
  "apply_snapshot a sel pms ifaces history st =
     (case getLatestMetrics a pms sel of
        (latestMetric, avgL, avgT) \<Rightarrow>
          (let interfaceNames = map name ifaces
           in st\<lparr>metrics := pms,
                 interfaces := ifaces,
                 chartData := convertHistoricalToChartData a history,
                 latestMetrics := latestMetric,
                 avgLatency := avgL,
                 avgThroughput := avgT,
                 availableInterfaces := interfaceNames,
                 selectedInterfaces :=
                   (if length sel = 0 \<and> length interfaceNames > 0 then interfaceNames
                    else selectedInterfaces st)\<rparr>))"

definition handleWebSocketUpdate ::
  "api \<Rightarrow> string \<Rightarrow> string list \<Rightarrow> provider_state \<Rightarrow> ws_data \<Rightarrow>
   provider_state \<times> console_entry list" where
  "handleWebSocketUpdate a now sel st data =
     (case data of
        Nullish \<Rightarrow> (st, [Warn ''Invalid WebSocket data format:'' data])
      | Payload p \<Rightarrow>
          (case (current_data p, historical_data p) of
             (Some currentData, Some hist) \<Rightarrow>
               (apply_snapshot a sel (performance_metrics currentData)
                  (am_interfaces currentData) hist st, [])
           | _ \<Rightarrow>
               (case legacy_performance_metrics p of
                  IsArray pms \<Rightarrow>
                    (let ifaces = (case legacy_interfaces p of None \<Rightarrow> [] | Some is \<Rightarrow> is)
                     in (apply_snapshot a sel pms ifaces
                           [\<lparr>performance_metrics = pms, am_interfaces = ifaces,
                             am_timestamp = now\<rparr>] st, []))
                | _ \<Rightarrow> (st, [Warn ''Invalid WebSocket data format:'' data]))))"

text \<open>
  The subscription effect has the dependency list \<^verbatim>\<open>[]\<close>: it runs once, after the first
  render, and the handler it subscribes, like the \<^verbatim>\<open>fetchData\<close> it calls, closes over
  the \<^verbatim>\<open>selectedInterfaces\<close> of that render, the initial state's.
\<close>

definition subscribed_handler ::
  "api \<Rightarrow> string \<Rightarrow> provider_state \<Rightarrow> ws_data \<Rightarrow> provider_state \<times> console_entry list" where
  "subscribed_handler a now st data =
     handleWebSocketUpdate a now (selectedInterfaces initial_state) st data"

definition initial_fetch ::
  "api \<Rightarrow> string + all_metrics \<Rightarrow> provider_state \<Rightarrow> provider_state" where
  "initial_fetch a outcome st = fetchData a (selectedInterfaces initial_state) outcome st"

text \<open>The two shapes a payload is accepted in, as the handler tests them.\<close>

definition is_current_shape :: "ws_data \<Rightarrow> bool" where
  "is_current_shape data =
     (case data of Nullish \<Rightarrow> False
      | Payload p \<Rightarrow> current_data p \<noteq> None \<and> historical_data p \<noteq> None)"

definition is_legacy_shape :: "ws_data \<Rightarrow> bool" where
  "is_legacy_shape data =
     (case data of Nullish \<Rightarrow> False
      | Payload p \<Rightarrow> (case legacy_performance_metrics p of IsArray pms \<Rightarrow> True | _ \<Rightarrow> False))"

subsection \<open>The hook \<^verbatim>\<open>useMetrics\<close>\<close>

datatype js_error = Error string

text \<open>
  \<^verbatim>\<open>useContext(MetricsContext)\<close>: the value of the nearest enclosing
  \<^verbatim>\<open>MetricsContext.Provider\<close> (the list holds the values of the enclosing providers,
  innermost first), or the default the context was created with, \<^verbatim>\<open>undefined\<close>.
\<close>

definition useContext :: "'c option \<Rightarrow> 'c list \<Rightarrow> 'c option" where
  "useContext dflt providers = (case providers of [] \<Rightarrow> dflt | v # _ \<Rightarrow> Some v)"

definition useMetrics :: "'c list \<Rightarrow> js_error + 'c" where
  "useMetrics providers =
     (case useContext None providers of
        None \<Rightarrow> Inl (Error ''useMetrics must be used within a MetricsProvider'')
      | Some context \<Rightarrow> Inr context)"

section \<open>Example data\<close>

definition sample_eth0 :: performance_metric where
  "sample_eth0 =
     \<lparr>interface = ''eth0'', timestamp = ''2024-01-01T00:00:10.000Z'',
      latency = Some 12.5, throughput = Some 80, packets_sent = Some 100,
      packets_recv = Some 98, bytes_recv = Some 1048576\<rparr>"

definition sample_wlan0 :: performance_metric where
  "sample_wlan0 =
     \<lparr>interface = ''wlan0'', timestamp = ''2024-01-01T00:00:05.000Z'',
      latency = Some 30, throughput = Some 20, packets_sent = Some 50,
      packets_recv = Some 50, bytes_recv = Some 2097152\<rparr>"

definition iface_eth0 :: network_interface where
  "iface_eth0 = \<lparr>name = ''eth0'', ipv4 = Some ''10.0.0.2'', ipv6 = None\<rparr>"

definition iface_wlan0 :: network_interface where
  "iface_wlan0 = \<lparr>name = ''wlan0'', ipv4 = Some ''10.0.0.3'', ipv6 = None\<rparr>"

definition snap1 :: all_metrics where
  "snap1 = \<lparr>performance_metrics = [sample_eth0], am_interfaces = [iface_eth0],
            am_timestamp = ''2024-01-01T00:00:10.000Z''\<rparr>"

definition snap2 :: all_metrics where
  "snap2 = \<lparr>performance_metrics = [sample_wlan0], am_interfaces = [iface_wlan0],
            am_timestamp = ''2024-01-01T00:00:05.000Z''\<rparr>"

text \<open>A payload of the current shape, one of the legacy shape, and \<^verbatim>\<open>{foo: 1}\<close>.\<close>

definition push_current :: "all_metrics \<Rightarrow> all_metrics list \<Rightarrow> ws_data" where
  "push_current s h =
     Payload \<lparr>current_data = Some s, historical_data = Some h,
              legacy_performance_metrics = Absent, legacy_interfaces = None\<rparr>"

definition push_legacy :: "performance_metric list \<Rightarrow> network_interface list \<Rightarrow> ws_data" where
  "push_legacy pms ifaces =
     Payload \<lparr>current_data = None, historical_data = None,
              legacy_performance_metrics = IsArray pms, legacy_interfaces = Some ifaces\<rparr>"

definition malformed :: ws_data where
  "malformed =
     Payload \<lparr>current_data = None, historical_data = None,
              legacy_performance_metrics = Absent, legacy_interfaces = None\<rparr>"

text \<open>The provider after the push of \<open>snap1\<close>, and after the push of \<open>snap2\<close> that follows.\<close>

definition after_snap1 :: provider_state where
  "after_snap1 =
     fst (subscribed_handler spec_api ''2024-01-01T00:00:10.200Z'' initial_state
            (push_current snap1 [snap1]))"

definition after_snap1_snap2 :: provider_state where
  "after_snap1_snap2 =
     fst (subscribed_handler spec_api ''2024-01-01T00:00:10.400Z'' after_snap1
            (push_current snap2 [snap1, snap2]))"

text \<open>The provider after the pull of \<open>snap1\<close>, and after a legacy push that follows.\<close>

definition pulled_snap1 :: provider_state where
  "pulled_snap1 = initial_fetch spec_api (Inr snap1) initial_state"

definition pulled_then_legacy :: provider_state where
  "pulled_then_legacy =
     fst (subscribed_handler spec_api ''2024-01-01T00:00:11.000Z'' pulled_snap1
            (push_legacy [sample_wlan0] [iface_wlan0]))"

text \<open>
  A provider in which the operator has narrowed the selection to \<^verbatim>\<open>eth0\<close>: the pull has
  brought both interfaces, the reconciling effect has selected both, and the operator has
  then picked \<^verbatim>\<open>eth0\<close> alone.
\<close>

definition snap_both :: all_metrics where
  "snap_both =
     \<lparr>performance_metrics = [sample_eth0, sample_wlan0],
      am_interfaces = [iface_eth0, iface_wlan0],
      am_timestamp = ''2024-01-01T00:00:10.000Z''\<rparr>"

definition user_state :: provider_state where
  "user_state =
     setSelectedInterfaces [''eth0'']
       (reconcile_effect (initial_fetch spec_api (Inr snap_both) initial_state))"

definition two_samples :: ws_data where
  "two_samples = push_legacy [sample_eth0, sample_wlan0] [iface_eth0, iface_wlan0]"

text \<open>The rows of the table for a store that holds both samples.\<close>

definition two_rows :: "network_metric list" where
  "two_rows = transformedData [sample_eth0, sample_wlan0] [iface_eth0, iface_wlan0]"

section \<open>The latest view\<close>

text \<open>
  The latest view of the store: latest samples, interface set, available names and the
  KPIs; and the view that one snapshot, taken alone under a selection, gives.
\<close>

definition latest_view ::
  "provider_state \<Rightarrow>
   performance_metric list \<times> network_interface list \<times> string list \<times>
   latest_metric \<times> real \<times> real" where
  "latest_view st =
     (metrics st, interfaces st, availableInterfaces st,
      latestMetrics st, avgLatency st, avgThroughput st)"

definition view_of ::
  "api \<Rightarrow> string list \<Rightarrow> performance_metric list \<Rightarrow> network_interface list \<Rightarrow>
   performance_metric list \<times> network_interface list \<times> string list \<times>
   latest_metric \<times> real \<times> real" where
  "view_of a sel pms ifaces = (pms, ifaces, map name ifaces, getLatestMetrics a pms sel)"

section \<open>Derived fields of a table row\<close>

lemma transformedData_nth:
  assumes "i < length ms"
  shows "transformedData ms ifaces ! i = transform_row ifaces (ms ! i) i"
  using assms by (simp add: transformedData_def)

lemma loss_le_100:
  fixes s r :: int
  assumes "0 < s" "0 \<le> r"
  shows "(real_of_int s - real_of_int r) / real_of_int s * 100 \<le> 100"
proof -
  have "real_of_int s - real_of_int r \<le> real_of_int s"
    using assms by simp
  then have "(real_of_int s - real_of_int r) / real_of_int s \<le> 1"
    using assms by (simp add: divide_le_eq)
  then have "(real_of_int s - real_of_int r) / real_of_int s * 100 \<le> 1 * 100"
    by (rule mult_right_mono) simp
  then show ?thesis by simp
qed

text \<open>
  C6. For a sample whose \<^verbatim>\<open>packets_sent\<close>, \<^verbatim>\<open>packets_recv\<close> and \<^verbatim>\<open>bytes_recv\<close> are
  non-negative integers \<open>s\<close>, \<open>r\<close>, \<open>b\<close>, the row the table derives from it has packet loss
  \<open>max 0 ((s - r) / s * 100)\<close> when \<open>s > 0\<close> and \<open>0\<close> otherwise, and bandwidth
  \<open>b / (1024 * 1024)\<close>; so the packet loss lies in \<open>[0, 100]\<close> and the bandwidth is not
  negative. (Numbers are read as reals.)
\<close>

theorem transformedData_derived_fields:
  assumes "i < length ms"
    and "packets_sent (ms ! i) = Some s"
    and "packets_recv (ms ! i) = Some r"
    and "bytes_recv (ms ! i) = Some b"
    and "0 \<le> s" and "0 \<le> r" and "0 \<le> b"
  shows "nm_packetLoss (transformedData ms ifaces ! i) =
           (if s > 0 then max 0 ((real_of_int s - real_of_int r) / real_of_int s * 100) else 0)
       \<and> nm_bandwidth (transformedData ms ifaces ! i) = real_of_int b / (1024 * 1024)
       \<and> 0 \<le> nm_packetLoss (transformedData ms ifaces ! i)
       \<and> nm_packetLoss (transformedData ms ifaces ! i) \<le> 100
       \<and> 0 \<le> nm_bandwidth (transformedData ms ifaces ! i)"
proof -
  let ?row = "transformedData ms ifaces ! i"
  have row: "?row = transform_row ifaces (ms ! i) i"
    using assms(1) by (rule transformedData_nth)
  have pl: "nm_packetLoss ?row =
      (if s > 0 then max 0 ((real_of_int s - real_of_int r) / real_of_int s * 100) else 0)"
    unfolding row using assms(2,3) by (simp add: transform_row_def or0i_def Let_def)
  have bw: "nm_bandwidth ?row = real_of_int b / (1024 * 1024)"
    unfolding row using assms(4) by (simp add: transform_row_def or0i_def Let_def)
  have lo: "0 \<le> nm_packetLoss ?row"
    unfolding pl by simp
  have hi: "nm_packetLoss ?row \<le> 100"
    unfolding pl using loss_le_100 [of s r] assms(6) by simp
  have bwlo: "0 \<le> nm_bandwidth ?row"
    unfolding bw using assms(7) by simp
  show ?thesis using pl bw lo hi bwlo by blast
qed

theorem transformedData_derived_fields_witness:
  "nm_packetLoss (transformedData [sample_wlan0, sample_eth0] [iface_eth0] ! 1) = 2
   \<and> nm_bandwidth (transformedData [sample_wlan0, sample_eth0] [iface_eth0] ! 1) = 1"
  using transformedData_derived_fields
    [of 1 "[sample_wlan0, sample_eth0]" 100 98 1048576 "[iface_eth0]"]
  by (simp add: sample_eth0_def)

section \<open>Selection reconciliation\<close>

text \<open>
  C7. Reconciliation returns the available names in full when there are available names
  and the selection is empty, and returns the selection unchanged in every other case,
  whether or not the selected names are still available; the provider's effect stores
  exactly that selection and touches nothing else.
\<close>

theorem reconcile_rule:
  "reconcile available selected =
     (if available \<noteq> [] \<and> selected = [] then available else selected)
   \<and> reconcile_effect st =
       st\<lparr>selectedInterfaces := reconcile (availableInterfaces st) (selectedInterfaces st)\<rparr>"
  by (simp add: reconcile_def reconcile_effect_def setSelectedInterfaces_def)

theorem reconcile_rule_witness:
  "reconcile [''eth0'', ''wlan0''] [] = [''eth0'', ''wlan0'']
   \<and> reconcile [''eth0''] [''gone0''] = [''gone0'']
   \<and> reconcile [] [] = []"
  using reconcile_rule [of "[''eth0'', ''wlan0'']" "[]" initial_state]
    reconcile_rule [of "[''eth0'']" "[''gone0'']" initial_state]
    reconcile_rule [of "[]" "[]" initial_state]
  by simp

section \<open>Failure of the pull\<close>

text \<open>
  C9. When the pull fails, whichever closure of \<^verbatim>\<open>fetchData\<close> ran, the error is set and
  the derived state is reset: metrics, interfaces, chart series and available interfaces
  are empty, and the latest and average KPIs are all 0.
\<close>

theorem fetchData_failure_resets:
  "error (fetchData a sel (Inl err) st) = Some ''Failed to fetch network metrics''
   \<and> error (fetchData a sel (Inl err) st) \<noteq> None
   \<and> metrics (fetchData a sel (Inl err) st) = []
   \<and> interfaces (fetchData a sel (Inl err) st) = []
   \<and> chartData (fetchData a sel (Inl err) st) = []
   \<and> availableInterfaces (fetchData a sel (Inl err) st) = []
   \<and> lm_latency (latestMetrics (fetchData a sel (Inl err) st)) = 0
   \<and> lm_throughput (latestMetrics (fetchData a sel (Inl err) st)) = 0
   \<and> lm_packetLoss (latestMetrics (fetchData a sel (Inl err) st)) = 0
   \<and> lm_bandwidth (latestMetrics (fetchData a sel (Inl err) st)) = 0
   \<and> avgLatency (fetchData a sel (Inl err) st) = 0
   \<and> avgThroughput (fetchData a sel (Inl err) st) = 0
   \<and> loading (fetchData a sel (Inl err) st) = False
   \<and> initial_fetch a (Inl err) st = fetchData a [] (Inl err) st
   \<and> refreshData a (Inl err) st = fetchData a (selectedInterfaces st) (Inl err) st"
  by (simp add: fetchData_def zero_latest_def initial_fetch_def refreshData_def
      initial_state_def)

section \<open>The hook outside and inside a provider\<close>

text \<open>
  C10. With no enclosing provider \<^verbatim>\<open>useMetrics\<close> throws the error
  \<^verbatim>\<open>useMetrics must be used within a MetricsProvider\<close>; inside a provider it returns the
  value of the nearest one.
\<close>

theorem useMetrics_provider:
  "useMetrics [] = Inl (Error ''useMetrics must be used within a MetricsProvider'')
   \<and> useMetrics (v # vs) = Inr v"
  by (simp add: useMetrics_def useContext_def)

section \<open>The example provider\<close>

lemma user_state_selected: "selectedInterfaces user_state = [''eth0'']"
  by (simp add: user_state_def setSelectedInterfaces_def)

lemma user_state_available: "availableInterfaces user_state = [''eth0'', ''wlan0'']"
  by (simp add: user_state_def setSelectedInterfaces_def reconcile_effect_def
      initial_fetch_def fetchData_def snap_both_def iface_eth0_def iface_wlan0_def
      split: prod.splits)

section \<open>What an accepted update does to the store\<close>

lemma handle_current_shape:
  "handleWebSocketUpdate a now sel st
     (Payload (p\<lparr>current_data := Some s, historical_data := Some h\<rparr>)) =
   (apply_snapshot a sel (performance_metrics s) (am_interfaces s) h st, [])"
  by (simp add: handleWebSocketUpdate_def)

lemma handle_legacy_shape:
  assumes "current_data p = None \<or> historical_data p = None"
  shows "handleWebSocketUpdate a now sel st
     (Payload (p\<lparr>legacy_performance_metrics := IsArray pms\<rparr>)) =
   (apply_snapshot a sel pms (case legacy_interfaces p of None \<Rightarrow> [] | Some is \<Rightarrow> is)
      [\<lparr>performance_metrics = pms,
        am_interfaces = (case legacy_interfaces p of None \<Rightarrow> [] | Some is \<Rightarrow> is),
        am_timestamp = now\<rparr>] st, [])"
  using assms by (auto simp: handleWebSocketUpdate_def Let_def split: option.splits)

lemma handle_legacy_no_current:
  "handleWebSocketUpdate a now sel st
     (Payload (p\<lparr>current_data := None, legacy_performance_metrics := IsArray pms\<rparr>)) =
   (apply_snapshot a sel pms (case legacy_interfaces p of None \<Rightarrow> [] | Some is \<Rightarrow> is)
      [\<lparr>performance_metrics = pms,
        am_interfaces = (case legacy_interfaces p of None \<Rightarrow> [] | Some is \<Rightarrow> is),
        am_timestamp = now\<rparr>] st, [])"
  using handle_legacy_shape [of "p\<lparr>current_data := None\<rparr>" a now sel st pms] by simp

lemma latest_view_apply_snapshot:
  "latest_view (apply_snapshot a sel pms ifaces h st) = view_of a sel pms ifaces"
  by (simp add: latest_view_def apply_snapshot_def view_of_def Let_def split: prod.splits)

lemma chartData_apply_snapshot:
  "chartData (apply_snapshot a sel pms ifaces h st) = convertHistoricalToChartData a h"
  by (simp add: apply_snapshot_def Let_def split: prod.splits)

lemma latest_view_fetchData:
  "latest_view (fetchData a sel (Inr s) st) =
     view_of a sel (performance_metrics s) (am_interfaces s)"
  by (simp add: latest_view_def fetchData_def view_of_def split: prod.splits)

lemma chartData_fetchData:
  "chartData (fetchData a sel (Inr s) st) = convertHistoricalToChartData a [s]"
  by (simp add: fetchData_def split: prod.splits)

subsection \<open>Ordering of snapshots\<close>

text \<open>
  C1, as the code has it. Whatever the store held before (in particular, whatever
  snapshot was applied before and whatever its timestamp), after an accepted push of
  either shape or a successful pull the latest view is the view of the snapshot just
  applied: its samples, its interfaces, their names and the KPIs of its samples. The
  store keeps no last-applied timestamp and compares none; of two snapshots pushed in
  sequence the second one decides the latest view.
\<close>

theorem latest_view_is_last_applied:
  "latest_view (fst (handleWebSocketUpdate a now sel st
       (Payload (p\<lparr>current_data := Some s, historical_data := Some h\<rparr>)))) =
     view_of a sel (performance_metrics s) (am_interfaces s)
   \<and> latest_view (fst (handleWebSocketUpdate a now sel st
       (Payload (p\<lparr>current_data := None, legacy_performance_metrics := IsArray pms\<rparr>)))) =
     view_of a sel pms (case legacy_interfaces p of None \<Rightarrow> [] | Some is \<Rightarrow> is)
   \<and> latest_view (fetchData a sel (Inr s) st) =
     view_of a sel (performance_metrics s) (am_interfaces s)
   \<and> latest_view (fst (subscribed_handler a now2
         (fst (subscribed_handler a now1 st (push_current s1 h1))) (push_current s2 h2))) =
     view_of a [] (performance_metrics s2) (am_interfaces s2)"
proof -
  have two: "fst (subscribed_handler a now2
         (fst (subscribed_handler a now1 st (push_current s1 h1))) (push_current s2 h2)) =
      apply_snapshot a [] (performance_metrics s2) (am_interfaces s2) h2
        (fst (subscribed_handler a now1 st (push_current s1 h1)))"
    by (simp add: subscribed_handler_def handleWebSocketUpdate_def push_current_def
        initial_state_def)
  show ?thesis
    unfolding two handle_legacy_no_current handle_current_shape
    by (simp add: latest_view_apply_snapshot latest_view_fetchData)
qed

theorem latest_view_is_last_applied_witness:
  "latest_view after_snap1_snap2 = view_of spec_api [] [sample_wlan0] [iface_wlan0]"
  using latest_view_is_last_applied
    [where a = spec_api and st = initial_state and ?s1.0 = snap1 and ?h1.0 = "[snap1]"
       and ?s2.0 = snap2 and ?h2.0 = "[snap1, snap2]"
       and ?now1.0 = "''2024-01-01T00:00:10.200Z''"
       and ?now2.0 = "''2024-01-01T00:00:10.400Z''"]
  by (simp add: after_snap1_snap2_def after_snap1_def snap2_def)

text \<open>
  C1 as stated fails: \<open>snap1\<close> (timestamp \<^verbatim>\<open>...:10\<close>) is pushed, then \<open>snap2\<close> (timestamp
  \<^verbatim>\<open>...:05\<close>, strictly lower); afterwards the latest samples and the interface set are
  those of \<open>snap2\<close>, not of \<open>snap1\<close>.
\<close>

theorem latest_view_rolls_back:
  "am_timestamp snap2 < am_timestamp snap1
   \<and> metrics after_snap1 = performance_metrics snap1
   \<and> interfaces after_snap1 = am_interfaces snap1
   \<and> metrics after_snap1_snap2 = performance_metrics snap2
   \<and> metrics after_snap1_snap2 \<noteq> performance_metrics snap1
   \<and> interfaces after_snap1_snap2 = am_interfaces snap2
   \<and> interfaces after_snap1_snap2 \<noteq> am_interfaces snap1
   \<and> availableInterfaces after_snap1_snap2 = [''wlan0'']
   \<and> latest_view after_snap1_snap2 \<noteq> latest_view after_snap1"
  by (simp add: after_snap1_snap2_def after_snap1_def snap1_def snap2_def
      subscribed_handler_def handleWebSocketUpdate_def push_current_def apply_snapshot_def
      spec_api_def getLatestMetrics_spec_def initial_state_def latest_view_def
      sample_eth0_def sample_wlan0_def iface_eth0_def iface_wlan0_def Let_def)

subsection \<open>The chart series\<close>

text \<open>
  C2, as the code has it. After an accepted update the chart series is built from what
  that update carries and from nothing the store held before: from the payload's
  \<^verbatim>\<open>historical_data\<close> for a push of the current shape, from the one snapshot just
  received (stamped with the receipt time) for a legacy push, and from the one snapshot
  pulled for a pull.
\<close>

theorem chartData_rebuilt_from_update:
  "chartData (fst (handleWebSocketUpdate a now sel st
       (Payload (p\<lparr>current_data := Some s, historical_data := Some h\<rparr>)))) =
     convertHistoricalToChartData a h
   \<and> chartData (fst (handleWebSocketUpdate a now sel st
       (Payload (p\<lparr>current_data := None, legacy_performance_metrics := IsArray pms\<rparr>)))) =
     convertHistoricalToChartData a
       [\<lparr>performance_metrics = pms,
         am_interfaces = (case legacy_interfaces p of None \<Rightarrow> [] | Some is \<Rightarrow> is),
         am_timestamp = now\<rparr>]
   \<and> chartData (fetchData a sel (Inr s) st) = convertHistoricalToChartData a [s]"
  unfolding handle_legacy_no_current handle_current_shape
  by (simp add: chartData_apply_snapshot chartData_fetchData)

theorem chartData_rebuilt_from_update_witness:
  "chartData pulled_snap1 = [chart_point_of snap1]"
  using chartData_rebuilt_from_update [where a = spec_api and s = snap1 and sel = "[]"
      and st = initial_state and h = "[snap1]"]
  by (simp add: pulled_snap1_def initial_fetch_def initial_state_def spec_api_def
      convertHistoricalToChartData_spec_def)

text \<open>
  C2 as stated fails: after the pull of \<open>snap1\<close> the series holds its point; after the
  legacy push that follows, the series holds one point and the point of \<open>snap1\<close> is gone.
  Likewise when \<open>snap1\<close> is pushed and then the older \<open>snap2\<close> is pushed with a
  \<^verbatim>\<open>historical_data\<close> that holds \<open>snap2\<close> alone.
\<close>

theorem chartData_forgets_earlier_snapshots:
  "chartData pulled_snap1 = [chart_point_of snap1]
   \<and> length (chartData pulled_then_legacy) = 1
   \<and> chart_point_of snap1 \<notin> set (chartData pulled_then_legacy)
   \<and> am_timestamp snap2 < am_timestamp snap1
   \<and> chartData (fst (subscribed_handler spec_api ''2024-01-01T00:00:10.400Z'' after_snap1
                       (push_current snap2 [snap2]))) = [chart_point_of snap2]
   \<and> chart_point_of snap1 \<noteq> chart_point_of snap2"
  by (simp add: pulled_snap1_def pulled_then_legacy_def initial_fetch_def fetchData_def
      after_snap1_def snap1_def snap2_def
      subscribed_handler_def handleWebSocketUpdate_def push_current_def push_legacy_def
      apply_snapshot_def spec_api_def getLatestMetrics_spec_def
      convertHistoricalToChartData_spec_def chart_point_of_def initial_state_def
      sample_eth0_def sample_wlan0_def iface_eth0_def iface_wlan0_def Let_def)

subsection \<open>The selection a push is aggregated under\<close>

text \<open>
  C4 at a concrete input. The operator has selected \<^verbatim>\<open>eth0\<close> alone; a legacy payload with
  a sample of \<^verbatim>\<open>eth0\<close> and one of \<^verbatim>\<open>wlan0\<close> is pushed. Whatever \<^verbatim>\<open>getLatestMetrics\<close>
  computes, the subscribed handler calls it with the selection of its closure, the empty
  one of the first render, and replaces the operator's selection by all interface names.
  With the aggregate calculator of the spec the latest latency under the empty selection
  is 0, where the operator's selection gives 12.5.
\<close>

theorem push_kpis_use_mount_selection:
  "selectedInterfaces user_state = [''eth0'']
   \<and> (latestMetrics (fst (subscribed_handler a now user_state two_samples)),
       avgLatency (fst (subscribed_handler a now user_state two_samples)),
       avgThroughput (fst (subscribed_handler a now user_state two_samples))) =
       getLatestMetrics a [sample_eth0, sample_wlan0] []
   \<and> selectedInterfaces (fst (subscribed_handler a now user_state two_samples)) =
       [''eth0'', ''wlan0'']
   \<and> lm_latency (fst (getLatestMetrics spec_api [sample_eth0, sample_wlan0] [])) = 0
   \<and> lm_latency (fst (getLatestMetrics spec_api [sample_eth0, sample_wlan0]
         (selectedInterfaces user_state))) = 25 / 2"
proof -
  have run: "fst (subscribed_handler a now user_state two_samples) =
      apply_snapshot a [] [sample_eth0, sample_wlan0] [iface_eth0, iface_wlan0]
        [\<lparr>performance_metrics = [sample_eth0, sample_wlan0],
          am_interfaces = [iface_eth0, iface_wlan0], am_timestamp = now\<rparr>] user_state"
    by (simp add: two_samples_def push_legacy_def subscribed_handler_def
        handleWebSocketUpdate_def initial_state_def Let_def)
  have kpis: "(latestMetrics (fst (subscribed_handler a now user_state two_samples)),
       avgLatency (fst (subscribed_handler a now user_state two_samples)),
       avgThroughput (fst (subscribed_handler a now user_state two_samples))) =
       getLatestMetrics a [sample_eth0, sample_wlan0] []"
    unfolding run by (simp add: apply_snapshot_def Let_def split: prod.splits)
  have sel: "selectedInterfaces (fst (subscribed_handler a now user_state two_samples)) =
       [''eth0'', ''wlan0'']"
    unfolding run
    by (simp add: apply_snapshot_def Let_def iface_eth0_def iface_wlan0_def
        split: prod.splits)
  have user: "selectedInterfaces user_state = [''eth0'']"
    by (rule user_state_selected)
  have zero: "lm_latency (fst (getLatestMetrics spec_api [sample_eth0, sample_wlan0] [])) = 0"
    by (simp add: spec_api_def getLatestMetrics_spec_def zero_latest_def)
  have want: "lm_latency (fst (getLatestMetrics spec_api [sample_eth0, sample_wlan0]
         (selectedInterfaces user_state))) = 25 / 2"
    by (simp add: user spec_api_def getLatestMetrics_spec_def latest_samples_def mean_def
        sample_eth0_def sample_wlan0_def or0_def Let_def)
  show ?thesis using user kpis sel zero want by blast
qed

section \<open>Payloads of neither shape\<close>

text \<open>
  C5. A payload that passes neither the test of the current shape nor the test of the
  legacy shape leaves the whole state as it was; the handler writes one warning to the
  console and returns (no branch of it throws).
\<close>

theorem invalid_payload_ignored:
  assumes "\<not> is_current_shape data" and "\<not> is_legacy_shape data"
  shows "handleWebSocketUpdate a now sel st data =
           (st, [Warn ''Invalid WebSocket data format:'' data])"
proof (cases data)
  case Nullish
  then show ?thesis by (simp add: handleWebSocketUpdate_def)
next
  case (Payload p)
  with assms show ?thesis
    by (auto simp: handleWebSocketUpdate_def is_current_shape_def is_legacy_shape_def
        split: option.splits array_field.splits)
qed

theorem invalid_payload_ignored_witness:
  "\<not> is_current_shape malformed \<and> \<not> is_legacy_shape malformed
   \<and> subscribed_handler spec_api ''2024-01-01T00:00:12.000Z'' pulled_snap1 malformed =
       (pulled_snap1, [Warn ''Invalid WebSocket data format:'' malformed])
   \<and> metrics pulled_snap1 = [sample_eth0]"
proof -
  have c: "\<not> is_current_shape malformed"
    by (simp add: is_current_shape_def malformed_def)
  have l: "\<not> is_legacy_shape malformed"
    by (simp add: is_legacy_shape_def malformed_def)
  have m: "metrics pulled_snap1 = [sample_eth0]"
    by (simp add: pulled_snap1_def initial_fetch_def fetchData_def snap1_def
        split: prod.splits)
  show ?thesis
    using invalid_payload_ignored [OF c l, of spec_api "''2024-01-01T00:00:12.000Z''"
        "selectedInterfaces initial_state" pulled_snap1] c l m
    by (simp add: subscribed_handler_def)
qed

section \<open>Explicit selections\<close>

text \<open>
  C3, as the code has it. After the operator sets a selection \<open>S\<close>, which leaves the
  available names as they were, the reconciling effect leaves the selection equal to \<open>S\<close>
  when \<open>S\<close> is not empty; an empty \<open>S\<close> is replaced by the available names.
\<close>

theorem explicit_selection_after_reconcile:
  "selectedInterfaces (reconcile_effect (setSelectedInterfaces S st)) =
     (if S = [] then availableInterfaces st else S)
   \<and> availableInterfaces (setSelectedInterfaces S st) = availableInterfaces st"
  by (simp add: reconcile_effect_def setSelectedInterfaces_def)

theorem explicit_selection_after_reconcile_witness:
  "selectedInterfaces (reconcile_effect (setSelectedInterfaces [''wlan0''] user_state)) =
     [''wlan0'']"
  using explicit_selection_after_reconcile [of "[''wlan0'']" user_state]
  by simp

text \<open>
  C3 as stated fails for the empty selection: with \<^verbatim>\<open>eth0\<close> and \<^verbatim>\<open>wlan0\<close> available, the
  operator clears the selection (\<^verbatim>\<open>handleClear\<close>); the reconciling effect then selects both
  names again.
\<close>

theorem cleared_selection_refilled:
  "availableInterfaces (setSelectedInterfaces handleClear user_state) =
     availableInterfaces user_state
   \<and> selectedInterfaces (setSelectedInterfaces handleClear user_state) = []
   \<and> selectedInterfaces (reconcile_effect (setSelectedInterfaces handleClear user_state)) =
       [''eth0'', ''wlan0'']
   \<and> selectedInterfaces (reconcile_effect (setSelectedInterfaces handleClear user_state)) \<noteq>
       handleClear"
  by (simp add: reconcile_effect_def setSelectedInterfaces_def handleClear_def
      user_state_available)

section \<open>Filtering by the selection\<close>

lemma js_includes_empty: "js_includes s []"
  by (cases s) simp_all

lemma search_matches_empty:
  assumes "lc [] = []"
  shows "search_matches lc [] row"
  using assms by (simp add: search_matches_def js_includes_empty)

lemma two_rows_interfaces: "map nm_interface two_rows = [''eth0'', ''wlan0'']"
  by (simp add: two_rows_def transformedData_def transform_row_def sample_eth0_def
      sample_wlan0_def Let_def)

lemma ascii_toLowerCase_empty: "ascii_toLowerCase [] = []"
  by (simp add: ascii_toLowerCase_def)

lemma search_matches_ascii_empty: "search_matches ascii_toLowerCase [] row"
  using ascii_toLowerCase_empty by (rule search_matches_empty)

text \<open>
  C8, as the code has it. Whatever the case mapping of the runtime, the table keeps, in
  their order, exactly the rows that match the search text and whose interface is a
  member of the selected set, or any interface when the selected set is empty: an empty
  selection switches the selection filter off, so the filtered rows are all the rows that
  match the search text, and all the rows when the search text is empty too (the lower
  case of the empty text being empty). For the aggregate calculator of the spec, an empty
  selection gives KPIs that are all 0, for every sample sequence.
\<close>

theorem filteredData_selection:
  "filteredData lc rows selected search =
     filter (\<lambda>row. (nm_interface row \<in> set selected \<or> selected = []) \<and>
                   search_matches lc search row) rows
   \<and> filteredData lc rows [] search = filter (search_matches lc search) rows
   \<and> (lc [] = [] \<longrightarrow> filteredData lc rows [] [] = rows)
   \<and> getLatestMetrics_spec samples [] =
       (\<lparr>lm_latency = 0, lm_throughput = 0, lm_packetLoss = 0, lm_bandwidth = 0\<rparr>, 0, 0)"
proof -
  have sel: "filteredData lc rows selected search =
     filter (\<lambda>row. (nm_interface row \<in> set selected \<or> selected = []) \<and>
                   search_matches lc search row) rows"
    unfolding filteredData_def by (rule filter_cong) (auto simp: row_matches_def)
  have off: "filteredData lc rows [] search = filter (search_matches lc search) rows"
    unfolding filteredData_def by (rule filter_cong) (auto simp: row_matches_def)
  have all: "filteredData lc rows [] [] = rows" if "lc [] = []"
  proof -
    have "search_matches lc [] row" for row
      using that by (rule search_matches_empty)
    then show ?thesis
      by (simp add: filteredData_def row_matches_def)
  qed
  have kpi: "getLatestMetrics_spec samples [] =
       (\<lparr>lm_latency = 0, lm_throughput = 0, lm_packetLoss = 0, lm_bandwidth = 0\<rparr>, 0, 0)"
    by (simp add: getLatestMetrics_spec_def zero_latest_def)
  show ?thesis using sel off all kpi by blast
qed

theorem filteredData_selection_witness:
  "ascii_toLowerCase [] = []
   \<and> filteredData ascii_toLowerCase two_rows [] [] = two_rows
   \<and> map nm_interface (filteredData ascii_toLowerCase two_rows [''wlan0''] []) = [''wlan0'']
   \<and> getLatestMetrics_spec [sample_eth0, sample_wlan0] [] = (zero_latest, 0, 0)"
proof -
  note inst = filteredData_selection
    [of ascii_toLowerCase two_rows "[''wlan0'']" "[]" "[sample_eth0, sample_wlan0]"]
  have all: "filteredData ascii_toLowerCase two_rows [] [] = two_rows"
    using inst ascii_toLowerCase_empty by blast
  have "filteredData ascii_toLowerCase two_rows [''wlan0''] [] =
      filter (\<lambda>row. (nm_interface row \<in> set [''wlan0''] \<or> [''wlan0''] = []) \<and>
                    search_matches ascii_toLowerCase [] row) two_rows"
    using inst by blast
  then have one: "filteredData ascii_toLowerCase two_rows [''wlan0''] [] =
      filter (\<lambda>row. nm_interface row = ''wlan0'') two_rows"
    by (simp add: search_matches_ascii_empty)
  have names: "map nm_interface (filteredData ascii_toLowerCase two_rows [''wlan0''] []) =
      [''wlan0'']"
    unfolding one
    by (simp add: two_rows_def transformedData_def transform_row_def sample_eth0_def
        sample_wlan0_def Let_def)
  have kpi: "getLatestMetrics_spec [sample_eth0, sample_wlan0] [] = (zero_latest, 0, 0)"
    using inst by (simp add: zero_latest_def)
  show ?thesis using ascii_toLowerCase_empty all names kpi by blast
qed

text \<open>
  C8 as stated fails: with an empty selection (and an empty search text) the filtered
  rows of the table are both rows, not none.
\<close>

theorem empty_selection_shows_all_rows:
  "map nm_interface (filteredData ascii_toLowerCase two_rows [] []) = [''eth0'', ''wlan0'']
   \<and> length (filteredData ascii_toLowerCase two_rows [] []) = 2
   \<and> filteredData ascii_toLowerCase two_rows [] [] \<noteq> []"
proof -
  have all: "filteredData ascii_toLowerCase two_rows [] [] = two_rows"
    by (simp add: filteredData_def row_matches_def search_matches_ascii_empty)
  have len: "length two_rows = 2"
    by (simp add: two_rows_def transformedData_def)
  show ?thesis
    unfolding all using two_rows_interfaces len by auto
qed

end
